theory Spec2Isabelle
  imports Complex_Main "HOL-Library.Word"
begin

unbundle bit_operations_syntax

section \<open>Values shared by the embedded packages\<close>

type_synonym byte = "8 word"

text \<open>Go's \<open>net.IP\<close> is a byte slice: 4 bytes for IPv4, 16 bytes for IPv6.\<close>

type_synonym ip = "byte list"

text \<open>A Go \<open>error\<close> value, identified by its message.\<close>

datatype err = Err string

text \<open>\<open>fmt.Errorf("<prefix>: %w", err)\<close>: the message of the wrapped error after the prefix.\<close>

fun Errorf :: "string \<Rightarrow> err \<Rightarrow> err" where
  "Errorf prefix (Err m) = Err (prefix @ m)"

text \<open>
  What a Go \<open>panic\<close> carries: the error given to \<open>panic(err)\<close>, a method call through a
  nil interface, function or pointer, or a failed forced type assertion.
\<close>

datatype panic = PanicErr err | NilDereference | TypeAssertion

text \<open>
  The dynamic type behind a \<open>net.Addr\<close>. \<open>TCPAddrNil\<close> is the typed nil pointer
  \<open>(*net.TCPAddr)(nil)\<close>: the type assertion accepts it and the field read panics.
\<close>

datatype addr = TCPAddr ip nat | TCPAddrNil | UDPAddr ip nat | UnixAddr string

section \<open>The world outside a stream context\<close>

text \<open>
  Connections and contexts are shared objects, so they live in a store and the code holds
  references to them. A connection records how often \<open>Close\<close> was called on it; what the
  k-th call answers belongs to the connection's implementation and is a field of the
  object. \<open>remoteAddr\<close> is what \<open>RemoteAddr()\<close> answers (\<open>None\<close>: a nil interface).
\<close>

type_synonym conn_id = nat
type_synonym ctx_id = nat

record conn_obj =
  remoteAddr :: "addr option"
  closeResult :: "nat \<Rightarrow> err option"
  closeCalls :: nat

text \<open>\<open>mtglib.Logger\<close>: a logger is the list of the key/value pairs bound to it.\<close>

datatype logger = Logger "(string \<times> string) list"

fun BindStr :: "string \<Rightarrow> string \<Rightarrow> logger \<Rightarrow> logger" where
  "BindStr k v (Logger bs) = Logger (bs @ [(k, v)])"

record world =
  conns :: "conn_id \<Rightarrow> conn_obj"
  ctxDone :: "ctx_id \<Rightarrow> bool"
  ctxParent :: "ctx_id \<Rightarrow> ctx_id option"
  ctxCount :: nat
  logged :: "(logger \<times> string \<times> err) list"
  entropy :: "byte list"

text \<open>
  \<open>conn.Close()\<close> on the connection object \<open>c\<close>: the answer of this call, and the call
  counted.
\<close>

definition conn_Close :: "conn_id \<Rightarrow> world \<Rightarrow> err option \<times> world" where
  "conn_Close c w =
     (let obj = conns w c
      in (closeResult obj (closeCalls obj),
          w\<lparr>conns := (conns w)(c := obj\<lparr>closeCalls := Suc (closeCalls obj)\<rparr>)\<rparr>))"

text \<open>
  \<open>context.WithCancel(parent)\<close>: a fresh context below \<open>parent\<close>; the returned cancel
  function is represented by the id of the context it cancels.
\<close>

definition WithCancel :: "ctx_id \<Rightarrow> world \<Rightarrow> ctx_id \<times> world" where
  "WithCancel parent w =
     (let c = ctxCount w
      in (c, w\<lparr>ctxDone := (ctxDone w)(c := ctxDone w parent),
                ctxParent := (ctxParent w)(c \<mapsto> parent),
                ctxCount := Suc c\<rparr>))"

text \<open>
  The context \<open>c\<close> is \<open>a\<close> or is derived from \<open>a\<close>: following the parents from \<open>c\<close> reaches
  \<open>a\<close> within \<open>n\<close> steps.
\<close>

fun derivedFrom :: "(ctx_id \<Rightarrow> ctx_id option) \<Rightarrow> nat \<Rightarrow> ctx_id \<Rightarrow> ctx_id \<Rightarrow> bool" where
  "derivedFrom par 0 c a = (c = a)"
| "derivedFrom par (Suc n) c a =
     (c = a \<or> (case par c of None \<Rightarrow> False | Some p \<Rightarrow> derivedFrom par n p a))"

text \<open>
  Calling a \<open>context.CancelFunc\<close>: the context and every context derived from it are
  done; a repeated call changes nothing. \<open>WithCancel\<close> numbers the contexts in the order of
  their creation, so a parent is older than its child and \<open>ctxCount\<close> steps reach every
  ancestor of a context.
\<close>

definition cancelCtx :: "ctx_id \<Rightarrow> world \<Rightarrow> world" where
  "cancelCtx c w =
     w\<lparr>ctxDone := (\<lambda>k. ctxDone w k \<or> derivedFrom (ctxParent w) (ctxCount w) k c)\<rparr>"

text \<open>
  The contexts of a world are well numbered: each one is below \<open>ctxCount\<close> and younger
  than its parent.
\<close>

definition ctxOrdered :: "world \<Rightarrow> bool" where
  "ctxOrdered w = (\<forall>c p. ctxParent w c = Some p \<longrightarrow> p < c \<and> c < ctxCount w)"

text \<open>\<open>logger.InfoError(msg, err)\<close>; through a nil interface it panics.\<close>

definition InfoError :: "logger option \<Rightarrow> string \<Rightarrow> err \<Rightarrow> world \<Rightarrow> (panic + unit) \<times> world" where
  "InfoError lg msg e w =
     (case lg of
        None \<Rightarrow> (Inl NilDereference, w)
      | Some l \<Rightarrow> (Inr (), w\<lparr>logged := logged w @ [(l, msg, e)]\<rparr>))"

section \<open>The stream context (package mtglib)\<close>

text \<open>
  The struct \<open>streamContext\<close>. A field of interface or function type can be nil, which is
  \<open>None\<close>. \<open>ctxCancel\<close> holds the id of the context its function cancels.
\<close>

record streamContext =
  ctx :: ctx_id
  ctxCancel :: "ctx_id option"
  clientConn :: "conn_id option"
  telegramConn :: "conn_id option"
  streamID :: string
  dc :: int
  logger :: "logger option"

text \<open>
  \<open>func (s *streamContext) Close()\<close>. It assigns no field of \<open>s\<close>, so the model returns the
  world only: the outcome (a panic, or a normal return) and the store as the call left it.
\<close>

definition Close :: "streamContext \<Rightarrow> world \<Rightarrow> (panic + unit) \<times> world" where
  "Close s w =
     (case ctxCancel s of
        None \<Rightarrow> (Inl NilDereference, w)
      | Some cf \<Rightarrow>
          (let w0 = cancelCtx cf w;
               (r1, w1) =
                 (case clientConn s of
                    None \<Rightarrow> (Inr (), w0)
                  | Some c \<Rightarrow>
                      (case conn_Close c w0 of
                         (None, w') \<Rightarrow> (Inr (), w')
                       | (Some e, w') \<Rightarrow> InfoError (logger s) ''error closing clientConn'' e w'))
           in case r1 of
                Inl p \<Rightarrow> (Inl p, w1)
              | Inr _ \<Rightarrow>
                  (case telegramConn s of
                     None \<Rightarrow> (Inr (), w1)
                   | Some c \<Rightarrow>
                       (case conn_Close c w1 of
                          (None, w') \<Rightarrow> (Inr (), w')
                        | (Some e, w') \<Rightarrow>
                            InfoError (logger s) ''error closing telegramConn'' e w'))))"

text \<open>Two calls of \<open>Close\<close> in a row on the same stream context.\<close>

definition closeTwice :: "streamContext \<Rightarrow> world \<Rightarrow> (panic + unit) \<times> world" where
  "closeTwice s w =
     (case Close s w of
        (Inl p, w') \<Rightarrow> (Inl p, w')
      | (Inr _, w') \<Rightarrow> Close s w')"

text \<open>How many of the two legs of \<open>s\<close> refer to the connection \<open>k\<close>.\<close>

definition legCount :: "streamContext \<Rightarrow> conn_id \<Rightarrow> nat" where
  "legCount s k =
     (if clientConn s = Some k then 1 else 0) + (if telegramConn s = Some k then 1 else 0)"

text \<open>
  \<open>func (s *streamContext) ClientIP() net.IP\<close>: a method call on \<open>clientConn\<close>, the forced
  type assertion \<open>.(*net.TCPAddr)\<close> on the answer of \<open>RemoteAddr()\<close>, and the field \<open>IP\<close>.
\<close>

definition ClientIP :: "streamContext \<Rightarrow> world \<Rightarrow> panic + ip" where
  "ClientIP s w =
     (case clientConn s of
        None \<Rightarrow> Inl NilDereference
      | Some c \<Rightarrow>
          (case remoteAddr (conns w c) of
             None \<Rightarrow> Inl TypeAssertion
           | Some (TCPAddr i p) \<Rightarrow> Inr i
           | Some TCPAddrNil \<Rightarrow> Inl NilDereference
           | Some (UDPAddr i p) \<Rightarrow> Inl TypeAssertion
           | Some (UnixAddr n) \<Rightarrow> Inl TypeAssertion))"

subsection \<open>The standard library calls of \<open>newStreamContext\<close>\<close>

text \<open>
  \<open>crand.Read(b)\<close> for a buffer of \<open>n\<close> bytes: the random source is the supply \<open>entropy\<close>
  of the world; the call takes the next \<open>n\<close> bytes, or fails when the source cannot give
  them.
\<close>

definition crand_Read :: "nat \<Rightarrow> world \<Rightarrow> (err + byte list) \<times> world" where
  "crand_Read n w =
     (if length (entropy w) < n then (Inl (Err ''crypto/rand: read failed''), w)
      else (Inr (take n (entropy w)), w\<lparr>entropy := drop n (entropy w)\<rparr>))"

text \<open>The alphabet of \<open>base64.URLEncoding\<close>.\<close>

definition encodeURL :: string where
  "encodeURL = ''ABCDEFGHIJKLMNOPQRSTUVWXYZabcdefghijklmnopqrstuvwxyz0123456789-_''"

text \<open>
  \<open>base64.RawURLEncoding.EncodeToString\<close>: three bytes give four characters; a rest of
  one byte gives two characters and a rest of two bytes three, with no padding character.
\<close>

fun EncodeToString :: "byte list \<Rightarrow> string" where
  "EncodeToString (a # b # c # src) =
     (let val = unat a * 65536 + unat b * 256 + unat c
      in encodeURL ! (val div 262144 mod 64) # encodeURL ! (val div 4096 mod 64) #
         encodeURL ! (val div 64 mod 64) # encodeURL ! (val mod 64) # EncodeToString src)"
| "EncodeToString [a, b] =
     (let val = unat a * 65536 + unat b * 256
      in [encodeURL ! (val div 262144 mod 64), encodeURL ! (val div 4096 mod 64),
          encodeURL ! (val div 64 mod 64)])"
| "EncodeToString [a] =
     (let val = unat a * 65536
      in [encodeURL ! (val div 262144 mod 64), encodeURL ! (val div 4096 mod 64)])"
| "EncodeToString [] = []"

text \<open>
  Modelled from the spec: the constant \<open>ConnectionIDBytesLength\<close> of package mtglib is
  not among the sources; the stream id is made of 16 random bytes.
\<close>

definition ConnectionIDBytesLength :: nat where
  "ConnectionIDBytesLength = 16"

text \<open>
  \<open>func newStreamContext(ctx, logger, clientConn) *streamContext\<close>. \<open>ipString\<close> stands
  for \<open>net.IP.String\<close>. The operands of the last assignment are evaluated from left to
  right: \<open>logger.BindStr("stream-id", ...)\<close> first, then \<open>streamCtx.ClientIP()\<close>.
\<close>

definition newStreamContext ::
  "(ip \<Rightarrow> string) \<Rightarrow> ctx_id \<Rightarrow> logger option \<Rightarrow> conn_id option \<Rightarrow> world
     \<Rightarrow> (panic + streamContext) \<times> world" where
  "newStreamContext ipString parent lg cc w =
     (case crand_Read ConnectionIDBytesLength w of
        (Inl e, w1) \<Rightarrow> (Inl (PanicErr e), w1)
      | (Inr connIDBytes, w1) \<Rightarrow>
          (let (c, w2) = WithCancel parent w1;
               streamCtx = \<lparr>ctx = c, ctxCancel = Some c, clientConn = cc, telegramConn = None,
                            streamID = EncodeToString connIDBytes, dc = 0, logger = None\<rparr>
           in case lg of
                None \<Rightarrow> (Inl NilDereference, w2)
              | Some l \<Rightarrow>
                  (case ClientIP streamCtx w2 of
                     Inl p \<Rightarrow> (Inl p, w2)
                   | Inr i \<Rightarrow>
                       (Inr (streamCtx\<lparr>logger :=
                               Some (BindStr ''client-ip'' (ipString i)
                                      (BindStr ''stream-id'' (streamID streamCtx) l))\<rparr>),
                        w2))))"

section \<open>The listener (package utils)\<close>

text \<open>
  \<open>func (l Listener) Accept() (net.Conn, error)\<close>. \<open>accepted\<close> is the answer of the embedded
  \<open>l.Listener.Accept()\<close>. \<open>network.SetClientSocketOptions\<close> is not among the sources and
  is a parameter: its answer for a connection and a buffer size. A return is the pair
  of the connection (\<open>None\<close>: nil) and the error (\<open>None\<close>: nil).
\<close>

definition Accept ::
  "(conn_id \<Rightarrow> nat \<Rightarrow> err option) \<Rightarrow> err + conn_id \<Rightarrow> world
     \<Rightarrow> (panic + conn_id option \<times> err option) \<times> world" where
  "Accept SetClientSocketOptions accepted w =
     (case accepted of
        Inl e \<Rightarrow> (Inr (None, Some e), w)
      | Inr conn \<Rightarrow>
          (case SetClientSocketOptions conn 0 of
             Some e \<Rightarrow>
               (case conn_Close conn w of
                  (Some e', w') \<Rightarrow> (Inl (PanicErr e'), w')
                | (None, w') \<Rightarrow>
                    (Inr (None, Some (Errorf ''cannot set TCP options: '' e)), w'))
           | None \<Rightarrow> (Inr (Some conn, None), w)))"

section \<open>The anti-replay cache (package antireplay)\<close>

text \<open>\<open>func (n noop) SeenBefore(_ []byte) bool\<close>. The struct \<open>noop\<close> has no field.\<close>

definition noop_SeenBefore :: "byte list \<Rightarrow> bool" where
  "noop_SeenBefore x = False"

text \<open>
  A sequence of calls against one no-op cache, with the answer of each call. The cache
  has no state to pass from call to call.
\<close>

fun noop_calls :: "byte list list \<Rightarrow> (byte list \<times> bool) list" where
  "noop_calls [] = []"
| "noop_calls (x # xs) = (x, noop_SeenBefore x) # noop_calls xs"

text \<open>
  The implementations \<open>makeAntiReplayCache\<close> chooses from. \<open>antireplay.NewStableBloomFilter\<close>
  is not among the sources: the value records the two arguments of the call. The error
  rate is a \<open>float64\<close>, kept abstract as \<open>'r\<close>.
\<close>

datatype 'r AntiReplayCache = Noop | StableBloomFilter nat 'r

definition NewNoop :: "'r AntiReplayCache" where
  "NewNoop = Noop"

section \<open>Building the collaborators from the configuration (package cli)\<close>

text \<open>
  Modelled from the spec: the typed values of package config (\<open>TypeBool\<close>, \<open>TypeBytes\<close>,
  \<open>TypeErrorRate\<close>, \<open>TypeConcurrency\<close>, \<open>TypeDuration\<close>) are not among the sources. An
  option is absent (\<open>None\<close>) or set, and \<open>Get\<close> answers the given default when it is absent.
\<close>

definition Get :: "'a option \<Rightarrow> 'a \<Rightarrow> 'a" where
  "Get v d = (case v of None \<Rightarrow> d | Some x \<Rightarrow> x)"

text \<open>The section \<open>defense.anti-replay\<close> of the configuration.\<close>

record 'r AntiReplayConfig =
  ar_Enabled :: "bool option"
  ar_MaxSize :: "nat option"
  ar_ErrorRate :: "'r option"

text \<open>
  \<open>func makeAntiReplayCache(conf *config.Config) mtglib.AntiReplayCache\<close>, on the section
  \<open>conf.Defense.AntiReplay\<close>. The constants \<open>antireplay.DefaultStableBloomFilterMaxSize\<close>
  and \<open>antireplay.DefaultStableBloomFilterErrorRate\<close> are not among the sources and are
  parameters.
\<close>

definition makeAntiReplayCache :: "nat \<Rightarrow> 'r \<Rightarrow> 'r AntiReplayConfig \<Rightarrow> 'r AntiReplayCache" where
  "makeAntiReplayCache DefaultStableBloomFilterMaxSize DefaultStableBloomFilterErrorRate conf =
     (if \<not> Get (ar_Enabled conf) False then NewNoop
      else StableBloomFilter
             (Get (ar_MaxSize conf) DefaultStableBloomFilterMaxSize)
             (Get (ar_ErrorRate conf) DefaultStableBloomFilterErrorRate))"

subsection \<open>IP lists\<close>

text \<open>Go's \<open>net.IPNet\<close>: the network number and the mask, both byte slices.\<close>

datatype ipnet = IPNet ip ip

text \<open>\<open>cidranger.AllIPv4\<close> is the network \<open>0.0.0.0/0\<close> and \<open>cidranger.AllIPv6\<close> is \<open>0::0/0\<close>.\<close>

definition AllIPv4 :: ipnet where
  "AllIPv4 = IPNet (replicate 4 0) (replicate 4 0)"

definition AllIPv6 :: ipnet where
  "AllIPv6 = IPNet (replicate 16 0) (replicate 16 0)"

text \<open>
  \<open>net.IP.To4\<close>: a 4-byte address as it is, a 16-byte address of the form
  \<open>::ffff:a.b.c.d\<close> as its last four bytes, and nil otherwise.
\<close>

definition To4 :: "ip \<Rightarrow> ip option" where
  "To4 a =
     (if length a = 4 then Some a
      else if length a = 16 \<and> take 10 a = replicate 10 0 \<and> a ! 10 = 255 \<and> a ! 11 = 255
      then Some (drop 12 a)
      else None)"

text \<open>
  \<open>net.IPNet.Contains\<close>: the address, as 4 bytes when it has that form, has the length
  of the network number and agrees with it under the mask, byte by byte.
\<close>

fun IPNet_Contains :: "ipnet \<Rightarrow> ip \<Rightarrow> bool" where
  "IPNet_Contains (IPNet nn m) a =
     (let x = (case To4 a of Some y \<Rightarrow> y | None \<Rightarrow> a)
      in length x = length nn \<and>
         list_all (\<lambda>(n, k, i). n AND k = i AND k) (zip nn (zip m x)))"

text \<open>
  The files of package \<open>ipblocklist/files\<close>: \<open>files.NewMem\<close> holds networks in memory; a
  local file and a remote one are named by a path and a URL.
\<close>

datatype File = Mem "ipnet list" | Local string | HTTP string

text \<open>
  Modelled from the spec: the type \<open>ipblocklist.Firehol\<close> with \<open>NewFireholFromFiles\<close>,
  \<open>Run\<close> and \<open>Contains\<close> is not among the sources. The list holds its files and an immutable
  snapshot of networks; the background task started by \<open>Run\<close> refreshes the list by
  swapping in the snapshot read from the files; \<open>Contains\<close> reads the current snapshot.
  A list that has not been refreshed yet has the empty snapshot. \<open>fetch\<close> is what a local
  or remote file holds at the time of the refresh.
\<close>

record firehol =
  fh_concurrency :: nat
  fh_files :: "File list"
  fh_snapshot :: "ipnet list"

definition NewFireholFromFiles :: "nat \<Rightarrow> File list \<Rightarrow> err + firehol" where
  "NewFireholFromFiles downloadConcurrency blocklists =
     Inr \<lparr>fh_concurrency = downloadConcurrency, fh_files = blocklists, fh_snapshot = []\<rparr>"

fun readFile :: "(string \<Rightarrow> ipnet list) \<Rightarrow> File \<Rightarrow> ipnet list" where
  "readFile fetch (Mem nets) = nets"
| "readFile fetch (Local path) = fetch path"
| "readFile fetch (HTTP url) = fetch url"

definition firehol_update :: "(string \<Rightarrow> ipnet list) \<Rightarrow> firehol \<Rightarrow> firehol" where
  "firehol_update fetch fh = fh\<lparr>fh_snapshot := concat (map (readFile fetch) (fh_files fh))\<rparr>"

definition firehol_Contains :: "firehol \<Rightarrow> ip \<Rightarrow> bool" where
  "firehol_Contains fh a = list_ex (\<lambda>n. IPNet_Contains n a) (fh_snapshot fh)"

text \<open>
  The two implementations of \<open>mtglib.IPBlocklist\<close> that package cli builds.

  Modelled from the spec: \<open>ipblocklist.NewNoop\<close> is not among the sources; its test
  \<open>NoopTestSuite.TestOp\<close> asserts that \<open>Contains\<close> of the no-op list is false.
\<close>

datatype IPBlocklist = NoopList | FireholList firehol

fun IPBlocklist_Contains :: "IPBlocklist \<Rightarrow> ip \<Rightarrow> bool" where
  "IPBlocklist_Contains NoopList a = False"
| "IPBlocklist_Contains (FireholList fh) a = firehol_Contains fh a"

text \<open>
  A goroutine started with \<open>go list.Run(updateEach)\<close>: the receiver (\<open>None\<close>: a nil
  pointer behind the interface) and the refresh period.
\<close>

datatype goroutine = GoRun "firehol option" nat

text \<open>One refresh by the background task of a list; the no-op list has none.\<close>

fun refreshed :: "(string \<Rightarrow> ipnet list) \<Rightarrow> IPBlocklist \<Rightarrow> IPBlocklist" where
  "refreshed fetch NoopList = NoopList"
| "refreshed fetch (FireholList fh) = FireholList (firehol_update fetch fh)"

text \<open>
  Modelled from the spec: the IP gate of the proxy is not among the sources. A connection
  passes iff the allowlist contains the IP and the blocklist does not.
\<close>

definition passes :: "IPBlocklist \<Rightarrow> IPBlocklist \<Rightarrow> ip \<Rightarrow> bool" where
  "passes allowlist blocklist a =
     (IPBlocklist_Contains allowlist a \<and> \<not> IPBlocklist_Contains blocklist a)"

text \<open>\<open>config.TypeBlocklistURI\<close> with its methods \<open>IsRemote\<close> and \<open>String\<close>.\<close>

datatype blocklistURI = RemoteURI string | LocalURI string

fun IsRemote :: "blocklistURI \<Rightarrow> bool" where
  "IsRemote (RemoteURI u) = True"
| "IsRemote (LocalURI u) = False"

fun String :: "blocklistURI \<Rightarrow> string" where
  "String (RemoteURI u) = u"
| "String (LocalURI u) = u"

text \<open>\<open>config.ListConfig\<close>: the sections \<open>defense.blocklist\<close> and \<open>defense.allowlist\<close>.\<close>

record ListConfig =
  lc_Enabled :: "bool option"
  lc_DownloadConcurrency :: "nat option"
  lc_URLs :: "blocklistURI list"
  lc_UpdateEach :: "nat option"

text \<open>The loop of \<open>makeIPBlocklist\<close> over \<open>conf.URLs\<close>, appending to one of the two slices.\<close>

fun splitURLs :: "blocklistURI list \<Rightarrow> string list \<Rightarrow> string list \<Rightarrow> string list \<times> string list" where
  "splitURLs [] remoteURLs localFiles = (remoteURLs, localFiles)"
| "splitURLs (v # vs) remoteURLs localFiles =
     (if IsRemote v then splitURLs vs (remoteURLs @ [String v]) localFiles
      else splitURLs vs remoteURLs (localFiles @ [String v]))"

text \<open>
  \<open>func makeIPBlocklist(conf, logger, ntw, updateCallback) (mtglib.IPBlocklist, error)\<close>.
  \<open>ipblocklist.NewFirehol\<close> and \<open>ipblocklist.DefaultFireholUpdateEach\<close> are not among the
  sources and are parameters; the logger, the network and the callback are only handed
  on to \<open>NewFirehol\<close>, whose answer here depends on the remaining arguments. The second
  component lists the goroutines the call started.
\<close>

definition makeIPBlocklist ::
  "(nat \<Rightarrow> string list \<Rightarrow> string list \<Rightarrow> err + firehol) \<Rightarrow> nat \<Rightarrow> ListConfig
     \<Rightarrow> (err + IPBlocklist) \<times> goroutine list" where
  "makeIPBlocklist NewFirehol DefaultFireholUpdateEach conf =
     (if \<not> Get (lc_Enabled conf) False then (Inr NoopList, [])
      else
        (let (remoteURLs, localFiles) = splitURLs (lc_URLs conf) [] []
         in case NewFirehol (Get (lc_DownloadConcurrency conf) 1) remoteURLs localFiles of
              Inl e \<Rightarrow> (Inl (Errorf ''incorrect parameters for firehol: '' e), [])
            | Inr blocklist \<Rightarrow>
                (Inr (FireholList blocklist),
                 [GoRun (Some blocklist) (Get (lc_UpdateEach conf) DefaultFireholUpdateEach)])))"

text \<open>
  \<open>func makeIPAllowlist(conf, logger, ntw, updateCallback) (mtglib.IPBlocklist, error)\<close>.
  In the disabled branch the goroutine is started before the error is looked at.
\<close>

definition makeIPAllowlist ::
  "(nat \<Rightarrow> string list \<Rightarrow> string list \<Rightarrow> err + firehol) \<Rightarrow> nat \<Rightarrow> ListConfig
     \<Rightarrow> (err + IPBlocklist) \<times> goroutine list" where
  "makeIPAllowlist NewFirehol DefaultFireholUpdateEach conf =
     (let (r, gs) =
        (if \<not> Get (lc_Enabled conf) False then
           (case NewFireholFromFiles 1 [Mem [AllIPv4, AllIPv6]] of
              Inl e \<Rightarrow>
                (Inl e, [GoRun None (Get (lc_UpdateEach conf) DefaultFireholUpdateEach)])
            | Inr allowlist \<Rightarrow>
                (Inr (FireholList allowlist),
                 [GoRun (Some allowlist) (Get (lc_UpdateEach conf) DefaultFireholUpdateEach)]))
         else makeIPBlocklist NewFirehol DefaultFireholUpdateEach conf)
      in case r of
           Inl e \<Rightarrow> (Inl (Errorf ''cannot build allowlist: '' e), gs)
         | Inr allowlist \<Rightarrow> (Inr allowlist, gs))"

section \<open>Concrete inputs\<close>

text \<open>
  A connection with a TCP peer whose first \<open>Close\<close> succeeds and whose later ones answer
  the error of a closed connection, as a \<open>net.TCPConn\<close> does; a world in which every
  connection id refers to such a connection, not closed yet, and the context 1 is derived
  from the root context 0; and a stream context on the context 1 with both legs assigned.
\<close>

definition ex_conn :: conn_obj where
  "ex_conn = \<lparr>remoteAddr = Some (TCPAddr [10, 0, 0, 10] 40000),
              closeResult = (\<lambda>k. if k = 0 then None else Some (Err ''use of closed network connection'')),
              closeCalls = 0\<rparr>"

definition ex_world :: world where
  "ex_world = \<lparr>conns = (\<lambda>k. ex_conn), ctxDone = (\<lambda>c. False),
               ctxParent = (\<lambda>c. if c = 1 then Some 0 else None),
               ctxCount = 2, logged = [],
               entropy = [0, 1, 2, 3, 4, 5, 6, 7, 8, 9, 10, 11, 12, 13, 14, 15, 16, 17]\<rparr>"

definition ex_stream :: streamContext where
  "ex_stream = \<lparr>ctx = 1, ctxCancel = Some 1, clientConn = Some 0, telegramConn = Some 1,
                streamID = ''AAECAwQFBgcICQoLDA0ODw'', dc = 2, logger = Some (Logger [])\<rparr>"

definition ex_stream_undialed :: streamContext where
  "ex_stream_undialed = ex_stream\<lparr>telegramConn := None\<rparr>"

text \<open>The same world with a further context 2 derived from the context 1 of the stream.\<close>

definition ex_world_child :: world where
  "ex_world_child = ex_world\<lparr>ctxParent := (ctxParent ex_world)(2 \<mapsto> 1), ctxCount := 3\<rparr>"

text \<open>
  A connection whose peer is a Unix socket and whose \<open>Close\<close> fails; a world of such
  connections; a world whose random source has three bytes left; and a stand-in for
  \<open>net.IP.String\<close>.
\<close>

definition ex_unix_conn :: conn_obj where
  "ex_unix_conn = \<lparr>remoteAddr = Some (UnixAddr ''/run/mtg.sock''),
                   closeResult = (\<lambda>k. Some (Err ''close failed'')),
                   closeCalls = 0\<rparr>"

definition ex_world_unix :: world where
  "ex_world_unix = ex_world\<lparr>conns := (\<lambda>k. ex_unix_conn)\<rparr>"

definition ex_world_dry :: world where
  "ex_world_dry = ex_world\<lparr>entropy := [1, 2, 3]\<rparr>"

definition ex_ipString :: "ip \<Rightarrow> string" where
  "ex_ipString i = (if i = [10, 0, 0, 10] then ''10.0.0.10'' else ''?'')"

text \<open>What \<open>newStreamContext\<close> returns in \<open>ex_world\<close> for the connection 0, and the world it leaves.\<close>

definition ex_stream_new :: streamContext where
  "ex_stream_new = \<lparr>ctx = 2, ctxCancel = Some 2, clientConn = Some 0, telegramConn = None,
           streamID = ''AAECAwQFBgcICQoLDA0ODw'', dc = 0,
           logger = Some (Logger [(''stream-id'', ''AAECAwQFBgcICQoLDA0ODw''),
                                  (''client-ip'', ''10.0.0.10'')])\<rparr>"

definition ex_world_new :: world where
  "ex_world_new = ex_world\<lparr>ctxDone := (ctxDone ex_world)(2 := False),
               ctxParent := (ctxParent ex_world)(2 \<mapsto> 0), ctxCount := 3,
               entropy := [16, 17]\<rparr>"

text \<open>A \<open>network.SetClientSocketOptions\<close> that fails on every connection.\<close>

definition ex_sockopt_fails :: "conn_id \<Rightarrow> nat \<Rightarrow> err option" where
  "ex_sockopt_fails c bufferSize = Some (Err ''setsockopt: bad file descriptor'')"

text \<open>
  A list section with nothing enabled, a \<open>NewFirehol\<close> that accepts every argument, files
  that are empty when fetched, and an IPv4 and an IPv6 address.
\<close>

definition ex_list_conf :: ListConfig where
  "ex_list_conf = \<lparr>lc_Enabled = None, lc_DownloadConcurrency = None,
                   lc_URLs = [RemoteURI ''https://example.org/list.netset''],
                   lc_UpdateEach = None\<rparr>"

definition ex_NewFirehol :: "nat \<Rightarrow> string list \<Rightarrow> string list \<Rightarrow> err + firehol" where
  "ex_NewFirehol n remoteURLs localFiles =
     Inr \<lparr>fh_concurrency = n, fh_files = map HTTP remoteURLs @ map Local localFiles,
          fh_snapshot = []\<rparr>"

definition ex_fetch :: "string \<Rightarrow> ipnet list" where
  "ex_fetch name = []"

definition ex_ipv4 :: ip where
  "ex_ipv4 = [10, 0, 0, 10]"

definition ex_ipv6 :: ip where
  "ex_ipv6 = [32, 1, 13, 184, 0, 0, 0, 0, 0, 0, 0, 0, 0, 0, 0, 1]"

text \<open>The section \<open>defense.anti-replay\<close> with the cache enabled and only the size set.\<close>

definition ex_antireplay_conf :: "real AntiReplayConfig" where
  "ex_antireplay_conf = \<lparr>ar_Enabled = Some True, ar_MaxSize = Some 1048576, ar_ErrorRate = None\<rparr>"

section \<open>Closing a stream context\<close>

lemma conn_Close_calls:
  "closeCalls (conns (snd (conn_Close c w)) k) = closeCalls (conns w k) + (if k = c then 1 else 0)"
  by (simp add: conn_Close_def Let_def)

lemma derivedFrom_refl: "derivedFrom par n a a"
  by (cases n) simp_all

text \<open>
  In a well numbered world the steps that \<open>cancelCtx\<close> allows suffice: \<open>derivedFrom\<close> is
  the reflexive transitive closure of the parent relation.
\<close>

lemma derivedFrom_sound:
  "derivedFrom par n c a \<Longrightarrow> (c, a) \<in> {(k, p). par k = Some p}\<^sup>*"
proof (induction n arbitrary: c)
  case 0
  then show ?case by simp
next
  case (Suc n)
  show ?case
  proof (cases "c = a")
    case True
    then show ?thesis by simp
  next
    case False
    with Suc.prems obtain p where p: "par c = Some p" and d: "derivedFrom par n p a"
      by (auto split: option.splits)
    from Suc.IH [OF d] have "(p, a) \<in> {(k, p). par k = Some p}\<^sup>*" .
    moreover from p have "(c, p) \<in> {(k, p). par k = Some p}" by simp
    ultimately show ?thesis by (rule converse_rtrancl_into_rtrancl [rotated])
  qed
qed

lemma derivedFrom_complete:
  assumes "(c, a) \<in> {(k, p). par k = Some p}\<^sup>*"
    and "\<forall>k p. par k = Some p \<longrightarrow> p < k"
  shows "\<forall>n. c \<le> n \<longrightarrow> derivedFrom par n c a"
  using assms(1)
proof (induction rule: converse_rtrancl_induct)
  case base
  show ?case by (simp add: derivedFrom_refl)
next
  case (step c p)
  from step.hyps(1) have pc: "par c = Some p" by simp
  with assms(2) have lt: "p < c" by blast
  show ?case
  proof (intro allI impI)
    fix n assume "c \<le> n"
    with lt obtain m where n: "n = Suc m" and pm: "p \<le> m"
      by (cases n) auto
    from step.IH pm have "derivedFrom par m p a" by blast
    with pc n show "derivedFrom par n c a" by simp
  qed
qed

lemma derivedFrom_ctxCount:
  assumes "ctxOrdered w" and "c < ctxCount w"
  shows "derivedFrom (ctxParent w) (ctxCount w) c a =
         ((c, a) \<in> {(k, p). ctxParent w k = Some p}\<^sup>*)"
proof
  assume "derivedFrom (ctxParent w) (ctxCount w) c a"
  then show "(c, a) \<in> {(k, p). ctxParent w k = Some p}\<^sup>*" by (rule derivedFrom_sound)
next
  assume r: "(c, a) \<in> {(k, p). ctxParent w k = Some p}\<^sup>*"
  from assms(1) have "\<forall>k p. ctxParent w k = Some p \<longrightarrow> p < k"
    by (simp add: ctxOrdered_def)
  from derivedFrom_complete [OF r this] assms(2)
  show "derivedFrom (ctxParent w) (ctxCount w) c a" by simp
qed

text \<open>The world of the examples is well numbered, and \<open>WithCancel\<close> keeps a world so.\<close>

lemma ex_world_ordered: "ctxOrdered ex_world"
  by (simp add: ctxOrdered_def ex_world_def)

lemma WithCancel_ordered:
  assumes "ctxOrdered w" and "parent < ctxCount w"
  shows "ctxOrdered (snd (WithCancel parent w))"
  using assms by (auto simp: ctxOrdered_def WithCancel_def Let_def less_Suc_eq)

lemma Close_effect:
  assumes "ctxCancel s = Some cf" and "logger s = Some lg"
  shows "fst (Close s w) = Inr ()"
    and "ctxDone (snd (Close s w)) =
           (\<lambda>c. ctxDone w c \<or> derivedFrom (ctxParent w) (ctxCount w) c cf)"
    and "closeCalls (conns (snd (Close s w)) k) = closeCalls (conns w k) + legCount s k"
    and "ctxParent (snd (Close s w)) = ctxParent w"
    and "ctxCount (snd (Close s w)) = ctxCount w"
  using assms
  by (auto simp: Close_def legCount_def conn_Close_def cancelCtx_def InfoError_def Let_def
      split: option.splits prod.splits sum.splits)

lemma closeTwice_eq:
  assumes "ctxCancel s = Some cf" and "logger s = Some lg"
  shows "closeTwice s w = Close s (snd (Close s w))"
proof -
  obtain r w' where rw: "Close s w = (r, w')" by (cases "Close s w")
  with Close_effect(1) [OF assms, of w] have "r = Inr ()" by simp
  with rw show ?thesis by (simp add: closeTwice_def)
qed

text \<open>
  Claim C1, as amended. \<open>Close\<close> has no guard against a repeated call. On a stream context
  whose cancel function and logger are set (as \<open>newStreamContext\<close> sets them), every call
  of \<open>Close\<close> returns normally, cancels the context and calls \<open>Close\<close> once on each leg that
  is not nil. After the first call the context is done (with the contexts derived from
  it, and no other) and each connection has received one \<open>Close\<close> for each leg that
  refers to it. A second call leaves the context done, as it
  was, and calls \<open>Close\<close> on each leg once more: each connection has then received two
  \<open>Close\<close> calls for each leg that refers to it.
\<close>

theorem Close_repeated_closes_again:
  assumes "ctxCancel s = Some cf" and "logger s = Some lg"
  shows "fst (Close s w) = Inr () \<and>
         ctxDone (snd (Close s w)) cf \<and>
         ctxDone (snd (Close s w)) =
           (\<lambda>c. ctxDone w c \<or> derivedFrom (ctxParent w) (ctxCount w) c cf) \<and>
         closeCalls (conns (snd (Close s w)) k) = closeCalls (conns w k) + legCount s k \<and>
         fst (closeTwice s w) = Inr () \<and>
         ctxDone (snd (closeTwice s w)) = ctxDone (snd (Close s w)) \<and>
         closeCalls (conns (snd (closeTwice s w)) k) = closeCalls (conns w k) + 2 * legCount s k"
proof -
  note first = Close_effect [OF assms, of w]
  note second = Close_effect [OF assms, of "snd (Close s w)"]
  have tw: "closeTwice s w = Close s (snd (Close s w))"
    by (rule closeTwice_eq [OF assms])
  have done1: "ctxDone (snd (Close s w)) cf"
    by (simp add: first(2) derivedFrom_refl)
  have done2: "ctxDone (snd (closeTwice s w)) = ctxDone (snd (Close s w))"
    unfolding tw by (simp add: second(2) first(2) first(4) first(5))
  have calls2: "closeCalls (conns (snd (closeTwice s w)) k) = closeCalls (conns w k) + 2 * legCount s k"
    unfolding tw by (simp add: second(3) first(3))
  show ?thesis
    using first(1) first(2) first(3) second(1) done1 done2 calls2 by (simp add: tw)
qed

theorem Close_repeated_closes_again_witness:
  "fst (Close ex_stream ex_world) = Inr () \<and>
   ctxDone (snd (Close ex_stream ex_world)) 1 \<and>
   \<not> ctxDone (snd (Close ex_stream ex_world)) 0 \<and>
   closeCalls (conns (snd (Close ex_stream ex_world)) 0) = 1 \<and>
   fst (closeTwice ex_stream ex_world) = Inr () \<and>
   ctxDone (snd (closeTwice ex_stream ex_world)) = ctxDone (snd (Close ex_stream ex_world)) \<and>
   closeCalls (conns (snd (closeTwice ex_stream ex_world)) 0) = 2"
proof -
  have c: "ctxCancel ex_stream = Some 1" and l: "logger ex_stream = Some (Logger [])"
    by (simp_all add: ex_stream_def)
  have n: "legCount ex_stream 0 = 1" "closeCalls (conns ex_world 0) = 0"
    by (simp_all add: legCount_def ex_stream_def ex_world_def ex_conn_def)
  have r: "\<not> (ctxDone ex_world 0 \<or> derivedFrom (ctxParent ex_world) (ctxCount ex_world) 0 1)"
    by (simp add: ex_world_def numeral_2_eq_2)
  show ?thesis
    using Close_repeated_closes_again [OF c l, of ex_world 0] r
    by (simp add: n derivedFrom_refl)
qed

text \<open>A context derived from the context of the stream is done after \<open>Close\<close> as well.\<close>

lemma Close_cancels_derived:
  "\<not> ctxDone ex_world_child 2 \<and> ctxDone (snd (Close ex_stream ex_world_child)) 2 \<and>
   \<not> ctxDone (snd (Close ex_stream ex_world_child)) 0"
proof -
  have c: "ctxCancel ex_stream = Some 1" and l: "logger ex_stream = Some (Logger [])"
    by (simp_all add: ex_stream_def)
  show ?thesis
    by (simp add: Close_effect(2) [OF c l] ex_world_child_def ex_world_def numeral_3_eq_3)
qed

text \<open>
  Claim C1 as stated fails: on a stream context with two open legs, the second call of
  \<open>Close\<close> calls \<open>Close\<close> on both connections again (each has then been closed twice, not
  once), the world after two calls differs from the world after one, and the errors of
  the repeated closing are logged.
\<close>

theorem Close_twice_counterexample:
  "closeCalls (conns (snd (Close ex_stream ex_world)) 0) = 1 \<and>
   closeCalls (conns (snd (closeTwice ex_stream ex_world)) 0) = 2 \<and>
   closeCalls (conns (snd (closeTwice ex_stream ex_world)) 1) = 2 \<and>
   snd (closeTwice ex_stream ex_world) \<noteq> snd (Close ex_stream ex_world) \<and>
   map (fst \<circ> snd) (logged (snd (closeTwice ex_stream ex_world))) =
     [''error closing clientConn'', ''error closing telegramConn'']"
proof -
  have a: "closeCalls (conns (snd (Close ex_stream ex_world)) 0) = 1"
    by (simp add: Close_def conn_Close_def cancelCtx_def InfoError_def
        ex_stream_def ex_world_def ex_conn_def Let_def)
  have b: "closeCalls (conns (snd (closeTwice ex_stream ex_world)) 0) = 2"
    by (simp add: closeTwice_def Close_def conn_Close_def cancelCtx_def InfoError_def
        ex_stream_def ex_world_def ex_conn_def Let_def)
  have c: "closeCalls (conns (snd (closeTwice ex_stream ex_world)) 1) = 2"
    by (simp add: closeTwice_def Close_def conn_Close_def cancelCtx_def InfoError_def
        ex_stream_def ex_world_def ex_conn_def Let_def)
  have d: "map (fst \<circ> snd) (logged (snd (closeTwice ex_stream ex_world))) =
     [''error closing clientConn'', ''error closing telegramConn'']"
    by (simp add: closeTwice_def Close_def conn_Close_def cancelCtx_def InfoError_def
        ex_stream_def ex_world_def ex_conn_def Let_def)
  from a b have "snd (closeTwice ex_stream ex_world) \<noteq> snd (Close ex_stream ex_world)"
    by auto
  with a b c d show ?thesis by blast
qed

text \<open>
  Claim C8. \<open>Close\<close> is total when a leg is not assigned: on a stream context whose
  \<open>telegramConn\<close> or \<open>clientConn\<close> is nil (cancel function and logger set, as
  \<open>newStreamContext\<close> sets them), \<open>Close\<close> returns normally and does not panic, the context
  is cancelled, and \<open>Close\<close> is called exactly once on the connection of the leg that is
  not nil and on no other connection.
\<close>

theorem Close_nil_leg:
  assumes "ctxCancel s = Some cf" and "logger s = Some lg"
    and "clientConn s = None \<or> telegramConn s = None"
  shows "fst (Close s w) = Inr () \<and>
         ctxDone (snd (Close s w)) cf \<and>
         closeCalls (conns (snd (Close s w)) k) =
           closeCalls (conns w k) +
           (if clientConn s = Some k \<or> telegramConn s = Some k then 1 else 0)"
proof -
  have "legCount s k = (if clientConn s = Some k \<or> telegramConn s = Some k then 1 else 0)"
    using assms(3) by (auto simp: legCount_def)
  then show ?thesis
    using Close_effect(1) [OF assms(1) assms(2), of w]
      Close_effect(2) [OF assms(1) assms(2), of w]
      Close_effect(3) [OF assms(1) assms(2), of w k] by (simp add: derivedFrom_refl)
qed

theorem Close_nil_leg_witness:
  "fst (Close ex_stream_undialed ex_world) = Inr () \<and>
   ctxDone (snd (Close ex_stream_undialed ex_world)) 1 \<and>
   closeCalls (conns (snd (Close ex_stream_undialed ex_world)) 0) = 1 \<and>
   closeCalls (conns (snd (Close ex_stream_undialed ex_world)) 1) = 0"
proof -
  have c: "ctxCancel ex_stream_undialed = Some 1"
    and l: "logger ex_stream_undialed = Some (Logger [])"
    and t: "clientConn ex_stream_undialed = None \<or> telegramConn ex_stream_undialed = None"
    by (simp_all add: ex_stream_undialed_def ex_stream_def)
  have n: "clientConn ex_stream_undialed = Some 0" "telegramConn ex_stream_undialed = None"
    "\<And>k. closeCalls (conns ex_world k) = 0"
    by (simp_all add: ex_stream_undialed_def ex_stream_def ex_world_def ex_conn_def)
  show ?thesis
    using Close_nil_leg [OF c l t, of ex_world 0] Close_nil_leg [OF c l t, of ex_world 1]
    by (simp add: n)
qed

section \<open>Creating a stream context\<close>

lemma length_encodeURL: "length encodeURL = 64"
  by (simp add: encodeURL_def)

lemma encodeURL_nth: "encodeURL ! (n mod 64) \<in> set encodeURL"
  by (rule nth_mem) (simp add: length_encodeURL)

lemma EncodeToString_length: "length (EncodeToString bs) = (length bs * 4 + 2) div 3"
  by (induction bs rule: EncodeToString.induct) (simp_all add: Let_def)

lemma EncodeToString_alphabet: "set (EncodeToString bs) \<subseteq> set encodeURL"
  by (induction bs rule: EncodeToString.induct) (simp_all add: Let_def encodeURL_nth)

lemma newStreamContext_ok:
  assumes "newStreamContext ipString parent lg cc w = (Inr s, w')"
  shows "ConnectionIDBytesLength \<le> length (entropy w)"
    and "streamID s = EncodeToString (take ConnectionIDBytesLength (entropy w))"
    and "entropy w' = drop ConnectionIDBytesLength (entropy w)"
    and "ctxCancel s = Some (ctx s)" and "telegramConn s = None" and "clientConn s = cc"
    and "\<exists>l. logger s = Some l"
  using assms
  by (auto simp: newStreamContext_def crand_Read_def WithCancel_def Let_def
      split: if_splits prod.splits sum.splits option.splits)

lemma newStreamContext_ex:
  "newStreamContext ex_ipString 0 (Some (Logger [])) (Some 0) ex_world =
     (Inr ex_stream_new, ex_world_new)"
  by (simp add: newStreamContext_def crand_Read_def WithCancel_def ClientIP_def Let_def
      ConnectionIDBytesLength_def ex_world_def ex_conn_def ex_ipString_def encodeURL_def
      ex_stream_new_def ex_world_new_def)

text \<open>
  Claim C3. Whenever \<open>newStreamContext\<close> returns a stream context, its stream id is the
  base64url encoding without padding of \<open>ConnectionIDBytesLength\<close> = 16 bytes, the next
  16 bytes of the cryptographic random source, which the call consumes; the id has 22
  characters of the URL alphabet. The constructor is the one place that assigns the
  field: \<open>Close\<close> and \<open>ClientIP\<close> assign no field of the stream context.
\<close>

theorem newStreamContext_streamID:
  assumes "newStreamContext ipString parent lg cc w = (Inr s, w')"
  shows "ConnectionIDBytesLength = 16 \<and>
         16 \<le> length (entropy w) \<and>
         streamID s = EncodeToString (take 16 (entropy w)) \<and>
         entropy w' = drop 16 (entropy w) \<and>
         length (streamID s) = 22 \<and>
         set (streamID s) \<subseteq> set encodeURL"
proof -
  note ok = newStreamContext_ok [OF assms]
  have n: "ConnectionIDBytesLength = 16" by (simp add: ConnectionIDBytesLength_def)
  have len: "length (streamID s) = 22"
    using ok(1) by (simp add: ok(2) EncodeToString_length n)
  have alph: "set (streamID s) \<subseteq> set encodeURL"
    by (simp add: ok(2) EncodeToString_alphabet)
  show ?thesis using ok(1) ok(2) ok(3) len alph by (simp add: n)
qed

theorem newStreamContext_streamID_witness:
  "newStreamContext ex_ipString 0 (Some (Logger [])) (Some 0) ex_world =
     (Inr ex_stream_new, ex_world_new) \<and>
   streamID ex_stream_new = ''AAECAwQFBgcICQoLDA0ODw'' \<and>
   streamID ex_stream_new = EncodeToString (take 16 (entropy ex_world)) \<and>
   entropy ex_world_new = drop 16 (entropy ex_world) \<and>
   length (streamID ex_stream_new) = 22"
proof -
  have "streamID ex_stream_new = ''AAECAwQFBgcICQoLDA0ODw''"
    by (simp add: ex_stream_new_def)
  with newStreamContext_streamID [OF newStreamContext_ex] newStreamContext_ex
  show ?thesis by blast
qed

text \<open>
  Claim C9. \<open>newStreamContext\<close> is partial: it panics with the error of the random source
  when the source fails; it panics for every client connection whose \<open>RemoteAddr\<close> is not
  a \<open>*net.TCPAddr\<close> (and for a nil connection); so whenever it returns a stream context,
  the client connection has a TCP peer address.
\<close>

theorem newStreamContext_partial:
  "(length (entropy w) < ConnectionIDBytesLength \<longrightarrow>
      (\<exists>e. fst (newStreamContext ipString parent lg cc w) = Inl (PanicErr e))) \<and>
   ((\<forall>c i p. cc = Some c \<longrightarrow> remoteAddr (conns w c) \<noteq> Some (TCPAddr i p)) \<longrightarrow>
      (\<exists>pn. fst (newStreamContext ipString parent lg cc w) = Inl pn)) \<and>
   ((\<exists>s. fst (newStreamContext ipString parent lg cc w) = Inr s) \<longrightarrow>
      (\<exists>c i p. cc = Some c \<and> remoteAddr (conns w c) = Some (TCPAddr i p)))"
  by (auto simp: newStreamContext_def crand_Read_def WithCancel_def ClientIP_def Let_def
      split: if_splits prod.splits sum.splits option.splits addr.splits)

theorem newStreamContext_partial_witness:
  "(\<exists>e. fst (newStreamContext ex_ipString 0 (Some (Logger [])) (Some 0) ex_world_dry) =
      Inl (PanicErr e)) \<and>
   fst (newStreamContext ex_ipString 0 (Some (Logger [])) (Some 0) ex_world_dry) =
     Inl (PanicErr (Err ''crypto/rand: read failed'')) \<and>
   (\<exists>pn. fst (newStreamContext ex_ipString 0 (Some (Logger [])) (Some 0) ex_world_unix) =
      Inl pn) \<and>
   fst (newStreamContext ex_ipString 0 (Some (Logger [])) (Some 0) ex_world_unix) =
     Inl TypeAssertion \<and>
   (\<exists>c i p. Some (0::nat) = Some c \<and> remoteAddr (conns ex_world c) = Some (TCPAddr i p))"
proof -
  have dry: "length (entropy ex_world_dry) < ConnectionIDBytesLength"
    by (simp add: ex_world_dry_def ConnectionIDBytesLength_def)
  have unix: "\<forall>c i p. Some (0::nat) = Some c \<longrightarrow>
      remoteAddr (conns ex_world_unix c) \<noteq> Some (TCPAddr i p)"
    by (simp add: ex_world_unix_def ex_unix_conn_def)
  have ok: "\<exists>s. fst (newStreamContext ex_ipString 0 (Some (Logger [])) (Some 0) ex_world) = Inr s"
    by (simp add: newStreamContext_ex)
  have a: "fst (newStreamContext ex_ipString 0 (Some (Logger [])) (Some 0) ex_world_dry) =
     Inl (PanicErr (Err ''crypto/rand: read failed''))"
    by (simp add: newStreamContext_def crand_Read_def ex_world_dry_def ConnectionIDBytesLength_def)
  have b: "fst (newStreamContext ex_ipString 0 (Some (Logger [])) (Some 0) ex_world_unix) =
     Inl TypeAssertion"
    by (simp add: newStreamContext_def crand_Read_def WithCancel_def ClientIP_def Let_def
      ConnectionIDBytesLength_def ex_world_unix_def ex_world_def ex_unix_conn_def)
  from newStreamContext_partial [where w = ex_world and ipString = ex_ipString and parent = 0
      and lg = "Some (Logger [])" and cc = "Some 0"] ok
  have c: "\<exists>c i p. Some (0::nat) = Some c \<and> remoteAddr (conns ex_world c) = Some (TCPAddr i p)"
    by blast
  from newStreamContext_partial [where w = ex_world_dry and ipString = ex_ipString and parent = 0
      and lg = "Some (Logger [])" and cc = "Some 0"] dry
  have d: "\<exists>e. fst (newStreamContext ex_ipString 0 (Some (Logger [])) (Some 0) ex_world_dry) =
      Inl (PanicErr e)"
    by blast
  from newStreamContext_partial [where w = ex_world_unix and ipString = ex_ipString and parent = 0
      and lg = "Some (Logger [])" and cc = "Some 0"] unix
  have e: "\<exists>pn. fst (newStreamContext ex_ipString 0 (Some (Logger [])) (Some 0) ex_world_unix) =
      Inl pn"
    by blast
  from a b c d e show ?thesis by blast
qed

section \<open>Accepting a connection\<close>

lemma conn_Close_result:
  "fst (conn_Close c w) = closeResult (conns w c) (closeCalls (conns w c))"
  by (simp add: conn_Close_def Let_def)

text \<open>
  Claim C10, as amended. When setting the client socket options fails on an accepted
  connection, \<open>Accept\<close> calls \<open>Close\<close> on that connection exactly once before it finishes;
  it then returns no connection and the error "cannot set TCP options: ..." when that
  \<open>Close\<close> succeeds, and panics with the error of \<open>Close\<close> when it fails. Whenever \<open>Accept\<close>
  returns a connection, it is the accepted one, its socket options were applied and the
  error is nil.
\<close>

theorem Accept_sockopt_failure:
  "(SetClientSocketOptions conn 0 = Some e \<longrightarrow>
      closeCalls (conns (snd (Accept SetClientSocketOptions (Inr conn) w)) conn) =
        Suc (closeCalls (conns w conn)) \<and>
      fst (Accept SetClientSocketOptions (Inr conn) w) =
        (case closeResult (conns w conn) (closeCalls (conns w conn)) of
           None \<Rightarrow> Inr (None, Some (Errorf ''cannot set TCP options: '' e))
         | Some e' \<Rightarrow> Inl (PanicErr e'))) \<and>
   (fst (Accept SetClientSocketOptions accepted w) = Inr (Some c, r) \<longrightarrow>
      accepted = Inr c \<and> SetClientSocketOptions c 0 = None \<and> r = None)"
proof -
  have part1: "closeCalls (conns (snd (Accept SetClientSocketOptions (Inr conn) w)) conn) =
        Suc (closeCalls (conns w conn)) \<and>
      fst (Accept SetClientSocketOptions (Inr conn) w) =
        (case closeResult (conns w conn) (closeCalls (conns w conn)) of
           None \<Rightarrow> Inr (None, Some (Errorf ''cannot set TCP options: '' e))
         | Some e' \<Rightarrow> Inl (PanicErr e'))"
    if "SetClientSocketOptions conn 0 = Some e"
    using that conn_Close_calls [of conn w conn] conn_Close_result [of conn w]
    by (cases "conn_Close conn w") (auto simp: Accept_def split: option.splits)
  have part2: "accepted = Inr c \<and> SetClientSocketOptions c 0 = None \<and> r = None"
    if "fst (Accept SetClientSocketOptions accepted w) = Inr (Some c, r)"
    using that
    by (auto simp: Accept_def split: sum.splits option.splits prod.splits)
  from part1 part2 show ?thesis by blast
qed

theorem Accept_sockopt_failure_witness:
  "closeCalls (conns (snd (Accept ex_sockopt_fails (Inr 0) ex_world)) 0) = 1 \<and>
   fst (Accept ex_sockopt_fails (Inr 0) ex_world) =
     Inr (None, Some (Err ''cannot set TCP options: setsockopt: bad file descriptor'')) \<and>
   fst (Accept (\<lambda>c b. None) (Inr 0) ex_world) = Inr (Some 0, None)"
proof -
  have f: "ex_sockopt_fails 0 0 = Some (Err ''setsockopt: bad file descriptor'')"
    by (simp add: ex_sockopt_fails_def)
  have w: "closeCalls (conns ex_world 0) = 0" "closeResult (conns ex_world 0) 0 = None"
    by (simp_all add: ex_world_def ex_conn_def)
  have ok: "fst (Accept (\<lambda>c b. None) (Inr 0) ex_world) = Inr (Some 0, None)"
    by (simp add: Accept_def)
  from Accept_sockopt_failure [where SetClientSocketOptions = ex_sockopt_fails and conn = 0
      and w = ex_world and e = "Err ''setsockopt: bad file descriptor''"] f
  have "closeCalls (conns (snd (Accept ex_sockopt_fails (Inr 0) ex_world)) 0) =
        Suc (closeCalls (conns ex_world 0)) \<and>
      fst (Accept ex_sockopt_fails (Inr 0) ex_world) =
        (case closeResult (conns ex_world 0) (closeCalls (conns ex_world 0)) of
           None \<Rightarrow> Inr (None, Some (Errorf ''cannot set TCP options: '' (Err ''setsockopt: bad file descriptor'')))
         | Some e' \<Rightarrow> Inl (PanicErr e'))"
    by blast
  with ok show ?thesis by (simp add: w)
qed

text \<open>
  Claim C10 as stated fails: when the socket options cannot be set and closing the
  connection fails too, \<open>Accept\<close> does not return an error, it panics (after the one call
  of \<open>Close\<close>).
\<close>

theorem Accept_panics_counterexample:
  "fst (Accept ex_sockopt_fails (Inr 0) ex_world_unix) = Inl (PanicErr (Err ''close failed'')) \<and>
   closeCalls (conns (snd (Accept ex_sockopt_fails (Inr 0) ex_world_unix)) 0) = 1"
  by (simp add: Accept_def conn_Close_def ex_sockopt_fails_def ex_world_unix_def
      ex_unix_conn_def Let_def)

section \<open>The no-op anti-replay cache\<close>

text \<open>
  Claim C2, as amended. The no-op cache never reports a replay: \<open>SeenBefore\<close> answers false
  for every byte string, and in every sequence of calls in which \<open>x\<close> is presented and
  presented again later, both calls (and all others) answer false.
\<close>

theorem noop_never_seen:
  "noop_SeenBefore x = False \<and>
   noop_calls (pre @ x # mid @ [x]) =
     map (\<lambda>y. (y, False)) pre @ (x, False) # map (\<lambda>y. (y, False)) mid @ [(x, False)]"
proof -
  have "noop_calls ys = map (\<lambda>y. (y, False)) ys" for ys
    by (induction ys) (simp_all add: noop_SeenBefore_def)
  then show ?thesis by (simp add: noop_SeenBefore_def)
qed

theorem noop_never_seen_witness:
  "noop_SeenBefore [1, 2, 3] = False \<and>
   noop_calls ([[7]] @ [1, 2, 3] # [[8], [9]] @ [[1, 2, 3]]) =
     map (\<lambda>y. (y, False)) [[7]] @ ([1, 2, 3], False) #
       map (\<lambda>y. (y, False)) [[8], [9]] @ [([1, 2, 3], False)]"
  by (rule noop_never_seen)

text \<open>
  Claim C2 as stated fails for the no-op cache: the byte string 1, 2, 3 is presented
  twice, and the second call answers false.
\<close>

theorem noop_false_negative_counterexample:
  "noop_calls [[1, 2, 3], [1, 2, 3]] = [([1, 2, 3], False), ([1, 2, 3], False)]"
  by (simp add: noop_SeenBefore_def)

section \<open>Choosing the collaborators\<close>

text \<open>
  Claim C4. \<open>makeAntiReplayCache\<close> returns the no-op cache exactly when
  \<open>defense.anti-replay.enabled\<close> is absent or false; otherwise it returns the stable Bloom
  filter built from the configured max-size and error-rate, each replaced by its default
  when unset. There is no third outcome.
\<close>

theorem makeAntiReplayCache_choice:
  "makeAntiReplayCache dms der conf =
     (if ar_Enabled conf = None \<or> ar_Enabled conf = Some False then Noop
      else StableBloomFilter
             (case ar_MaxSize conf of None \<Rightarrow> dms | Some n \<Rightarrow> n)
             (case ar_ErrorRate conf of None \<Rightarrow> der | Some r \<Rightarrow> r)) \<and>
   (makeAntiReplayCache dms der conf = Noop) =
     (ar_Enabled conf = None \<or> ar_Enabled conf = Some False)"
  by (auto simp: makeAntiReplayCache_def Get_def NewNoop_def split: option.splits)

theorem makeAntiReplayCache_choice_witness:
  "makeAntiReplayCache 1048576 (1 / 1000) ex_antireplay_conf =
     StableBloomFilter 1048576 (1 / 1000) \<and>
   makeAntiReplayCache 1048576 (1 / 1000) (ex_antireplay_conf\<lparr>ar_Enabled := None\<rparr>) = Noop \<and>
   makeAntiReplayCache 1048576 (1 / 1000) (ex_antireplay_conf\<lparr>ar_Enabled := Some False\<rparr>) = Noop"
  using makeAntiReplayCache_choice [of 1048576 "1 / 1000" ex_antireplay_conf]
    makeAntiReplayCache_choice [of 1048576 "1 / 1000" "ex_antireplay_conf\<lparr>ar_Enabled := None\<rparr>"]
    makeAntiReplayCache_choice [of 1048576 "1 / 1000"
      "ex_antireplay_conf\<lparr>ar_Enabled := Some False\<rparr>"]
  by (simp add: ex_antireplay_conf_def)

lemma zero_mask_agrees:
  "list_all (\<lambda>(n, k, i). n AND k = i AND k) (zip (replicate m 0) (zip (replicate m (0::byte)) x))"
proof (induction m arbitrary: x)
  case 0
  show ?case by simp
next
  case (Suc m)
  show ?case by (cases x) (simp_all add: Suc.IH)
qed

lemma To4_length: "To4 a = Some y \<Longrightarrow> length y = 4"
  by (auto simp: To4_def split: if_splits)

lemma AllIPv4_Contains: "To4 a = Some y \<Longrightarrow> IPNet_Contains AllIPv4 a"
  using zero_mask_agrees [of 4 y] by (simp add: AllIPv4_def To4_length)

lemma AllIPv6_Contains: "To4 a = None \<Longrightarrow> length a = 16 \<Longrightarrow> IPNet_Contains AllIPv6 a"
  using zero_mask_agrees [of 16 a] by (simp add: AllIPv6_def)

lemma To4_None_length: "To4 a = None \<Longrightarrow> length a \<noteq> 4"
  by (auto simp: To4_def split: if_splits)

lemma all_nets_Contain:
  assumes "length a = 4 \<or> length a = 16"
  shows "list_ex (\<lambda>n. IPNet_Contains n a) [AllIPv4, AllIPv6]"
proof (cases "To4 a")
  case None
  with assms have "length a = 16" using To4_None_length by blast
  with None show ?thesis by (simp add: AllIPv6_Contains)
next
  case (Some y)
  then show ?thesis by (simp add: AllIPv4_Contains)
qed

lemma makeIPAllowlist_disabled:
  assumes "lc_Enabled conf = None \<or> lc_Enabled conf = Some False"
  shows "makeIPAllowlist NewFirehol d conf =
     (Inr (FireholList \<lparr>fh_concurrency = 1, fh_files = [Mem [AllIPv4, AllIPv6]], fh_snapshot = []\<rparr>),
      [GoRun (Some \<lparr>fh_concurrency = 1, fh_files = [Mem [AllIPv4, AllIPv6]], fh_snapshot = []\<rparr>)
         (Get (lc_UpdateEach conf) d)])"
  using assms by (auto simp: makeIPAllowlist_def NewFireholFromFiles_def Get_def)

text \<open>
  Claim C5. When the allowlist is disabled, \<open>makeIPAllowlist\<close> returns a list over the two
  networks of all IPv4 and all IPv6 addresses and starts its background task; once that
  task has refreshed the list, \<open>Contains\<close> is true for every IPv4 and every IPv6 address
  (4 or 16 bytes), so that a connection passes the IP gate iff the blocklist does not
  contain its address.
\<close>

theorem disabled_allowlist_allows_all:
  assumes "lc_Enabled conf = None \<or> lc_Enabled conf = Some False"
    and "length a = 4 \<or> length a = 16"
  shows "\<exists>fh. makeIPAllowlist NewFirehol d conf =
           (Inr (FireholList fh), [GoRun (Some fh) (Get (lc_UpdateEach conf) d)]) \<and>
         IPBlocklist_Contains (refreshed fetch (FireholList fh)) a \<and>
         passes (refreshed fetch (FireholList fh)) blocklist a =
           (\<not> IPBlocklist_Contains blocklist a)"
proof -
  let ?fh = "\<lparr>fh_concurrency = 1, fh_files = [Mem [AllIPv4, AllIPv6]], fh_snapshot = []\<rparr>"
  have c: "IPBlocklist_Contains (refreshed fetch (FireholList ?fh)) a"
    using all_nets_Contain [OF assms(2)] by (simp add: firehol_update_def firehol_Contains_def)
  then have p: "passes (refreshed fetch (FireholList ?fh)) blocklist a =
           (\<not> IPBlocklist_Contains blocklist a)"
    by (simp add: passes_def)
  from makeIPAllowlist_disabled [OF assms(1)] c p show ?thesis by blast
qed

theorem disabled_allowlist_allows_all_witness:
  "(\<exists>fh. makeIPAllowlist ex_NewFirehol 3600 ex_list_conf =
           (Inr (FireholList fh), [GoRun (Some fh) 3600]) \<and>
         IPBlocklist_Contains (refreshed ex_fetch (FireholList fh)) ex_ipv4 \<and>
         passes (refreshed ex_fetch (FireholList fh)) NoopList ex_ipv4 = True) \<and>
   (\<exists>fh. makeIPAllowlist ex_NewFirehol 3600 ex_list_conf =
           (Inr (FireholList fh), [GoRun (Some fh) 3600]) \<and>
         IPBlocklist_Contains (refreshed ex_fetch (FireholList fh)) ex_ipv6 \<and>
         passes (refreshed ex_fetch (FireholList fh)) NoopList ex_ipv6 = True)"
proof -
  have e: "lc_Enabled ex_list_conf = None \<or> lc_Enabled ex_list_conf = Some False"
    by (simp add: ex_list_conf_def)
  have l4: "length ex_ipv4 = 4 \<or> length ex_ipv4 = 16" by (simp add: ex_ipv4_def)
  have l6: "length ex_ipv6 = 4 \<or> length ex_ipv6 = 16" by (simp add: ex_ipv6_def)
  have g: "Get (lc_UpdateEach ex_list_conf) 3600 = 3600"
    by (simp add: ex_list_conf_def Get_def)
  show ?thesis
    using disabled_allowlist_allows_all [OF e l4, of ex_NewFirehol 3600 ex_fetch NoopList]
      disabled_allowlist_allows_all [OF e l6, of ex_NewFirehol 3600 ex_fetch NoopList]
    by (simp add: g)
qed

text \<open>
  Claim C6. When the blocklist is disabled, \<open>makeIPBlocklist\<close> returns the no-op list and
  starts no task; its \<open>Contains\<close> is false for every address, before and after any
  refresh, so under the pass rule a connection passes iff the allowlist contains its
  address: the blocklist denies none.
\<close>

theorem disabled_blocklist_denies_none:
  assumes "lc_Enabled conf = None \<or> lc_Enabled conf = Some False"
  shows "makeIPBlocklist NewFirehol d conf = (Inr NoopList, []) \<and>
         \<not> IPBlocklist_Contains NoopList a \<and>
         \<not> IPBlocklist_Contains (refreshed fetch NoopList) a \<and>
         passes allowlist NoopList a = IPBlocklist_Contains allowlist a"
  using assms by (auto simp: makeIPBlocklist_def Get_def passes_def)

theorem disabled_blocklist_denies_none_witness:
  "makeIPBlocklist ex_NewFirehol 3600 ex_list_conf = (Inr NoopList, []) \<and>
   \<not> IPBlocklist_Contains NoopList ex_ipv4 \<and>
   passes (FireholList \<lparr>fh_concurrency = 1, fh_files = [], fh_snapshot = [AllIPv4]\<rparr>)
     NoopList ex_ipv4"
proof -
  have e: "lc_Enabled ex_list_conf = None \<or> lc_Enabled ex_list_conf = Some False"
    by (simp add: ex_list_conf_def)
  have c: "IPBlocklist_Contains
      (FireholList \<lparr>fh_concurrency = 1, fh_files = [], fh_snapshot = [AllIPv4]\<rparr>) ex_ipv4"
    by (simp add: firehol_Contains_def AllIPv4_def To4_def ex_ipv4_def zero_mask_agrees)
  show ?thesis
    using disabled_blocklist_denies_none [OF e, of ex_NewFirehol 3600 ex_ipv4 ex_fetch
        "FireholList \<lparr>fh_concurrency = 1, fh_files = [], fh_snapshot = [AllIPv4]\<rparr>"] c
    by simp
qed

text \<open>With the list enabled, the URLs reach \<open>NewFirehol\<close> and the task is started.\<close>

lemma makeIPBlocklist_enabled_ex:
  "makeIPBlocklist ex_NewFirehol 3600 (ex_list_conf\<lparr>lc_Enabled := Some True\<rparr>) =
     (Inr (FireholList \<lparr>fh_concurrency = 1, fh_files = [HTTP ''https://example.org/list.netset''],
                        fh_snapshot = []\<rparr>),
      [GoRun (Some \<lparr>fh_concurrency = 1, fh_files = [HTTP ''https://example.org/list.netset''],
                        fh_snapshot = []\<rparr>) 3600])"
  by (simp add: makeIPBlocklist_def Get_def ex_list_conf_def ex_NewFirehol_def)

end
